theory Spec2Isabelle
  imports Main "HOL-Library.AList"
begin

section \<open>pygmt.project: the data model\<close>

text \<open>
  The embedding follows \<^verbatim>\<open>src/pygmt/src/project.py\<close>, function \<^verbatim>\<open>project\<close>
  (lines 216 to 273). The body is modelled as it runs after its decorators: the
  keyword arguments arrive under their single-letter names (\<^verbatim>\<open>"G"\<close> for
  \<^verbatim>\<open>generate\<close>, \<^verbatim>\<open>"F"\<close> for \<^verbatim>\<open>flags\<close>), each value as the text the argument
  builder prints for it.
\<close>

text \<open>
  The exceptions the body can raise. \<^verbatim>\<open>GMTInvalidInput\<close> is raised at two places,
  told apart by their message: line 230 (\<^verbatim>\<open>Please pass in a str to 'outfile'\<close>) and
  line 233 (\<^verbatim>\<open>Unrecognized data type ...\<close>, with the text of \<^verbatim>\<open>type(points)\<close>).
  \<^verbatim>\<open>GMTCLibError\<close> is a failure of the external module, passed through.
  \<^verbatim>\<open>ValueError\<close> is what \<^verbatim>\<open>list.index\<close> raises on a missing item and what
  \<^verbatim>\<open>read_csv\<close> raises on a repeated name, \<^verbatim>\<open>IndexError\<close> what indexing a
  list out of range raises, \<^verbatim>\<open>AttributeError\<close> what \<^verbatim>\<open>.columns\<close> or \<^verbatim>\<open>.values\<close>
  raises on an object that has no such attribute, \<^verbatim>\<open>TypeError\<close> what joining a
  non-string raises.
\<close>

datatype invalid_input = PleasePassOutfile | UnrecognizedDataType string

datatype error =
    GMTInvalidInput invalid_input
  | GMTCLibError string
  | ValueError
  | IndexError
  | AttributeError
  | TypeError

text \<open>A \<^verbatim>\<open>pandas.DataFrame\<close>: its ordered column names and its rows of cells.\<close>

record table =
  columns :: "string list"
  rows :: "string list list"

text \<open>
  The \<^verbatim>\<open>points\<close> argument: a table, a file name (a \<^verbatim>\<open>str\<close>), or any other object,
  carried as the text of its type.
\<close>

datatype points = DataFrame table | FileName string | OtherObject string

text \<open>The kinds \<^verbatim>\<open>data_kind\<close> tells apart; the body tests for the first two only.\<close>

datatype kind = Matrix | File | OtherKind

text \<open>
  Modelled from the spec: \<^verbatim>\<open>data_kind\<close> (of \<^verbatim>\<open>pygmt.helpers\<close>) is not under src/.
  The spec sorts the input into an in-memory table (the matrix kind), a file path,
  and everything else.
\<close>

fun data_kind :: "points \<Rightarrow> kind" where
  "data_kind (DataFrame t) = Matrix"
| "data_kind (FileName f) = File"
| "data_kind (OtherObject ty) = OtherKind"

text \<open>\<^verbatim>\<open>points.values\<close> and \<^verbatim>\<open>points.columns.to_list()\<close>: only a table has them.\<close>

fun points_values :: "points \<Rightarrow> error + string list list" where
  "points_values (DataFrame t) = Inr (rows t)"
| "points_values (FileName f) = Inl AttributeError"
| "points_values (OtherObject ty) = Inl AttributeError"

fun points_columns :: "points \<Rightarrow> error + string list" where
  "points_columns (DataFrame t) = Inr (columns t)"
| "points_columns (FileName f) = Inl AttributeError"
| "points_columns (OtherObject ty) = Inl AttributeError"

text \<open>
  \<^verbatim>\<open>dummy_context(points)\<close> hands \<^verbatim>\<open>points\<close> itself to the \<^verbatim>\<open>with\<close> block, where it is
  joined into the argument string: that needs a \<^verbatim>\<open>str\<close>.
\<close>

fun dummy_context :: "points \<Rightarrow> error + string" where
  "dummy_context (FileName f) = Inr f"
| "dummy_context (DataFrame t) = Inl TypeError"
| "dummy_context (OtherObject ty) = Inl TypeError"

subsection \<open>Python values and their formatting\<close>

text \<open>
  The items of a \<^verbatim>\<open>center\<close> sequence, formatted by \<^verbatim>\<open>f"{item}"\<close>. Floating-point
  items are left out: their printed form is not modelled.
\<close>

datatype pyval = PyInt int | PyStr string | PyBool bool | PyNone

fun str_nat :: "nat \<Rightarrow> string" where
  "str_nat n =
     (if n < 10 then [''0123456789'' ! n]
      else str_nat (n div 10) @ [''0123456789'' ! (n mod 10)])"

declare str_nat.simps [simp del]

fun py_format :: "pyval \<Rightarrow> string" where
  "py_format (PyInt i) = (if i < 0 then ''-'' @ str_nat (nat (- i)) else str_nat (nat i))"
| "py_format (PyStr s) = s"
| "py_format (PyBool b) = (if b then ''True'' else ''False'')"
| "py_format PyNone = ''None''"

text \<open>\<^verbatim>\<open>sep.join(xs)\<close> on a list of strings.\<close>

fun str_join :: "string \<Rightarrow> string list \<Rightarrow> string" where
  "str_join sep [] = []"
| "str_join sep [x] = x"
| "str_join sep (x # y # ys) = x @ sep @ str_join sep (y # ys)"

text \<open>\<^verbatim>\<open>list(s)\<close> on a string: its characters, each a string of length one.\<close>

definition list_of_str :: "string \<Rightarrow> string list" where
  "list_of_str s = map (\<lambda>c. [c]) s"

text \<open>
  The \<^verbatim>\<open>center\<close> argument, documented as \<^verbatim>\<open>str or list\<close>. Iterating a string yields
  its characters, iterating a sequence its items.
\<close>

datatype center = CenterStr string | CenterSeq "pyval list"

fun center_items :: "center \<Rightarrow> string list" where
  "center_items (CenterStr s) = list_of_str s"
| "center_items (CenterSeq vs) = map py_format vs"

text \<open>Line 218: \<^verbatim>\<open>"/".join(f"{item}" for item in center)\<close>.\<close>

definition center_arg :: "center \<Rightarrow> string" where
  "center_arg c = str_join ''/'' (center_items c)"

subsection \<open>The keyword arguments\<close>

text \<open>
  \<^verbatim>\<open>kwargs\<close> is a dict in insertion order: an association list. \<^verbatim>\<open>kwargs[k] = v\<close>
  is \<^const>\<open>AList.update\<close> (the value replaced in place, or the pair appended),
  \<^verbatim>\<open>k in kwargs\<close> is \<open>has_key\<close>, \<^verbatim>\<open>kwargs[k]\<close> is \<^const>\<open>map_of\<close>.
\<close>

type_synonym kwargs = "(string \<times> string) list"

definition has_key :: "kwargs \<Rightarrow> string \<Rightarrow> bool" where
  "has_key kw k = (k \<in> fst ` set kw)"

text \<open>
  Modelled from the spec: \<^verbatim>\<open>build_arg_string\<close> (of \<^verbatim>\<open>pygmt.helpers\<close>) is not under
  src/. The spec has every option of the bag mapped to one single-letter flag token
  that carries its value (a presence-only token for an empty value), and the tokens
  make up one argument string.
\<close>

definition flag_token :: "string \<times> string \<Rightarrow> string" where
  "flag_token kv = ''-'' @ fst kv @ snd kv"

definition arg_tokens :: "kwargs \<Rightarrow> string list" where
  "arg_tokens kw = map flag_token kw"

definition build_arg_string :: "kwargs \<Rightarrow> string" where
  "build_arg_string kw = str_join '' '' (arg_tokens kw)"

subsection \<open>The external collaborators\<close>

text \<open>
  What the surrounding system supplies: the name of the \<^verbatim>\<open>GMTTempFile\<close>, the name of
  the virtual file that \<^verbatim>\<open>virtualfile_from_matrix\<close> gives for a matrix, and
  \<^verbatim>\<open>call_module\<close>, which for a module name and an argument string either fails
  (\<open>Inl\<close> the message of the \<^verbatim>\<open>GMTCLibError\<close> it raises) or writes rows to the output
  named in the argument string. Staging a matrix as a virtual file is taken to succeed.
\<close>

record gmt =
  tmpfile_name :: string
  virtualfile_from_matrix :: "string list list \<Rightarrow> string"
  call_module :: "string \<Rightarrow> string \<Rightarrow> string + string list list"

text \<open>\<^verbatim>\<open>lib.call_module(module=m, args=a)\<close>, its failure raised as an exception.\<close>

definition lib_call_module :: "gmt \<Rightarrow> string \<Rightarrow> string \<Rightarrow> error + string list list" where
  "lib_call_module env m a =
     (case call_module env m a of Inl msg \<Rightarrow> Inl (GMTCLibError msg) | Inr written \<Rightarrow> Inr written)"

text \<open>
  \<^verbatim>\<open>pd.read_csv(tmpfile.name, sep="\t", names=column_names)\<close>: the rows of the file
  under the given column names. The reader belongs to pandas: it raises
  \<^verbatim>\<open>ValueError\<close> when a name is given twice, and otherwise gives a table under exactly
  the names it is given.
\<close>

definition read_csv :: "string list list \<Rightarrow> string list \<Rightarrow> error + table" where
  "read_csv file_rows names =
     (if distinct names then Inr \<lparr>columns = names, rows = file_rows\<rparr> else Inl ValueError)"

section \<open>The operations\<close>

subsection \<open>List operations of Python\<close>

text \<open>\<^verbatim>\<open>xs.index(v)\<close>: the first position of \<^verbatim>\<open>v\<close>, or \<^verbatim>\<open>ValueError\<close>.\<close>

fun index :: "'a list \<Rightarrow> 'a \<Rightarrow> error + nat" where
  "index [] v = Inl ValueError"
| "index (x # xs) v =
     (if x = v then Inr 0
      else (case index xs v of Inl e \<Rightarrow> Inl e | Inr i \<Rightarrow> Inr (Suc i)))"

text \<open>\<^verbatim>\<open>xs[i]\<close> for \<^verbatim>\<open>i \<ge> 0\<close>: \<^verbatim>\<open>IndexError\<close> out of range.\<close>

definition getitem :: "'a list \<Rightarrow> nat \<Rightarrow> error + 'a" where
  "getitem xs i = (if i < length xs then Inr (xs ! i) else Inl IndexError)"

text \<open>\<^verbatim>\<open>xs.pop(i)\<close>, the list that is left; \<^verbatim>\<open>IndexError\<close> out of range.\<close>

definition pop :: "'a list \<Rightarrow> nat \<Rightarrow> error + 'a list" where
  "pop xs i = (if i < length xs then Inr (take i xs @ drop (Suc i) xs) else Inl IndexError)"

text \<open>\<^verbatim>\<open>xs.insert(i, v)\<close>: before position \<^verbatim>\<open>i\<close>, at the end when \<^verbatim>\<open>i\<close> is beyond it.\<close>

definition insert_at :: "nat \<Rightarrow> 'a \<Rightarrow> 'a list \<Rightarrow> 'a list" where
  "insert_at i v xs = take i xs @ v # drop i xs"

text \<open>
  Lines 266 and 267: \<^verbatim>\<open>for col in reversed(cols): column_names.insert(i_z, col)\<close>,
  a loop over the reversed list.
\<close>

fun insert_all :: "nat \<Rightarrow> 'a list \<Rightarrow> 'a list \<Rightarrow> 'a list" where
  "insert_all i [] names = names"
| "insert_all i (col # cols) names = insert_all i cols (insert_at i col names)"

subsection \<open>Column names of the result (lines 247 to 267)\<close>

text \<open>Lines 252 to 255: the flags given under \<^verbatim>\<open>"F"\<close>, or the default.\<close>

definition resolved_flags :: "kwargs \<Rightarrow> string" where
  "resolved_flags kw = (case map_of kw ''F'' of Some f \<Rightarrow> f | None \<Rightarrow> ''xyzpqrs'')"

text \<open>
  Lines 258 to 267: the positions of x, y and z are looked up first, then the two
  first input names are written over x and y, z is popped and the remaining input
  names are inserted at its place.
\<close>

definition substitute_columns :: "string list \<Rightarrow> points \<Rightarrow> error + string list" where
  "substitute_columns column_names pts =
     (case index column_names ''x'' of Inl e \<Rightarrow> Inl e | Inr i_x \<Rightarrow>
     (case index column_names ''y'' of Inl e \<Rightarrow> Inl e | Inr i_y \<Rightarrow>
     (case index column_names ''z'' of Inl e \<Rightarrow> Inl e | Inr i_z \<Rightarrow>
     (case points_columns pts of Inl e \<Rightarrow> Inl e | Inr input_column_names \<Rightarrow>
     (case getitem input_column_names 0 of Inl e \<Rightarrow> Inl e | Inr c0 \<Rightarrow>
     (case getitem input_column_names 1 of Inl e \<Rightarrow> Inl e | Inr c1 \<Rightarrow>
     (case pop (column_names[i_x := c0, i_y := c1]) i_z of Inl e \<Rightarrow> Inl e | Inr popped \<Rightarrow>
        Inr (insert_all i_z (rev (drop 2 input_column_names)) popped))))))))"

definition output_column_names :: "kwargs \<Rightarrow> points \<Rightarrow> error + string list" where
  "output_column_names kw pts =
     (if has_key kw ''G'' then Inr (list_of_str ''rsp'')
      else substitute_columns (list_of_str (resolved_flags kw)) pts)"

subsection \<open>Running the module (lines 223 to 243)\<close>

text \<open>
  Lines 226 to 233: the input of the module, or the error raised. \<^verbatim>\<open>outfile\<close> is the
  variable as it stands after line 222.
\<close>

definition table_context :: "gmt \<Rightarrow> points \<Rightarrow> string option \<Rightarrow> error + string" where
  "table_context env pts outfile =
     (if data_kind pts = Matrix then
        (case points_values pts of Inl e \<Rightarrow> Inl e
         | Inr m \<Rightarrow> Inr (virtualfile_from_matrix env m))
      else if data_kind pts = File then
        (if outfile = None then Inl (GMTInvalidInput PleasePassOutfile)
         else dummy_context pts)
      else Inl (GMTInvalidInput (UnrecognizedDataType
             (case pts of OtherObject ty \<Rightarrow> ty | _ \<Rightarrow> []))))"

text \<open>
  \<^verbatim>\<open>"->" + outfile\<close>: the redirection token. Concatenating \<^verbatim>\<open>None\<close> to a string
  raises \<^verbatim>\<open>TypeError\<close>.
\<close>

definition redirect :: "string option \<Rightarrow> error + string" where
  "redirect outfile = (case outfile of None \<Rightarrow> Inl TypeError | Some f \<Rightarrow> Inr (''->'' @ f))"

text \<open>
  The result pairs the argument strings \<^verbatim>\<open>call_module\<close> was called with, in order,
  with the rows the module wrote or the error raised.
\<close>

definition run_module ::
  "gmt \<Rightarrow> points \<Rightarrow> string option \<Rightarrow> kwargs \<Rightarrow> string list \<times> (error + string list list)" where
  "run_module env pts outfile kw =
     (if \<not> has_key kw ''G'' then
        (case table_context env pts outfile of
           Inl e \<Rightarrow> ([], Inl e)
         | Inr csvfile \<Rightarrow>
             (case redirect outfile of
                Inl e \<Rightarrow> ([], Inl e)
              | Inr target \<Rightarrow>
                  (let arg_str = str_join '' '' [csvfile, build_arg_string kw, target]
                   in ([arg_str], lib_call_module env ''project'' arg_str))))
      else
        (case redirect outfile of
           Inl e \<Rightarrow> ([], Inl e)
         | Inr target \<Rightarrow>
             (let arg_str = str_join '' '' [build_arg_string kw, target]
              in ([arg_str], lib_call_module env ''project'' arg_str))))"

subsection \<open>project (lines 216 to 273)\<close>

text \<open>Lines 221 and 222: the temporary file's name takes the place of no \<^verbatim>\<open>outfile\<close>.\<close>

definition resolve_outfile :: "gmt \<Rightarrow> string option \<Rightarrow> string option" where
  "resolve_outfile env outfile =
     (case outfile of None \<Rightarrow> Some (tmpfile_name env) | Some f \<Rightarrow> Some f)"

definition project ::
  "gmt \<Rightarrow> points \<Rightarrow> center \<Rightarrow> string option \<Rightarrow> kwargs \<Rightarrow> string list \<times> (error + table option)" where
  "project env pts c outfile0 kwargs0 =
     (let kw = AList.update ''C'' (center_arg c) kwargs0;
          outfile = resolve_outfile env outfile0
      in case run_module env pts outfile kw of
           (calls, Inl e) \<Rightarrow> (calls, Inl e)
         | (calls, Inr written) \<Rightarrow>
             if outfile = Some (tmpfile_name env) then
               (case output_column_names kw pts of
                  Inl e \<Rightarrow> (calls, Inl e)
                | Inr column_names \<Rightarrow>
                    (case read_csv written column_names of
                       Inl e \<Rightarrow> (calls, Inl e)
                     | Inr result \<Rightarrow> (calls, Inr (Some result))))
             else (calls, Inr None))"

section \<open>Example inputs\<close>

text \<open>
  An environment whose module call succeeds and writes no rows, a table with the two
  coordinate columns only, and one with two more columns.
\<close>

definition example_env :: gmt where
  "example_env =
     \<lparr>tmpfile_name = ''pygmt-tmp.csv'',
      virtualfile_from_matrix = (\<lambda>m. ''@GMTAPI@-000000''),
      call_module = (\<lambda>m a. Inr [])\<rparr>"

definition lonlat :: table where
  "lonlat = \<lparr>columns = [''lon'', ''lat''], rows = []\<rparr>"

definition quakes :: table where
  "quakes = \<lparr>columns = [''lon'', ''lat'', ''depth'', ''mag''], rows = []\<rparr>"

section \<open>Properties of the list operations\<close>

lemma index_absent: "v \<notin> set xs \<Longrightarrow> index xs v = Inl ValueError"
  by (induction xs) auto

lemma index_present: "v \<in> set xs \<Longrightarrow> \<exists>i. index xs v = Inr i"
  by (induction xs) auto

lemma index_Inr: "index xs v = Inr i \<Longrightarrow> i < length xs \<and> xs ! i = v"
  by (induction xs arbitrary: i) (auto split: if_splits sum.splits)

lemma index_first: "index xs v = Inr i \<Longrightarrow> j < i \<Longrightarrow> xs ! j \<noteq> v"
proof (induction xs arbitrary: i j)
  case Nil
  then show ?case by simp
next
  case (Cons x xs)
  show ?case
  proof (cases "x = v")
    case True
    with Cons.prems show ?thesis by simp
  next
    case False
    with Cons.prems obtain i' where i': "index xs v = Inr i'" "i = Suc i'"
      by (auto split: sum.splits)
    show ?thesis
    proof (cases j)
      case 0
      with False show ?thesis by simp
    next
      case (Suc j')
      with Cons.prems(2) i' have "j' < i'" by simp
      with Cons.IH [OF i'(1)] Suc show ?thesis by simp
    qed
  qed
qed

lemma index_Inl: "index xs v = Inl e \<Longrightarrow> e = ValueError \<and> v \<notin> set xs"
  by (induction xs) (auto split: if_splits sum.splits)

lemma insert_all_eq:
  "i \<le> length names \<Longrightarrow> insert_all i cols names = take i names @ rev cols @ drop i names"
proof (induction cols arbitrary: names)
  case Nil
  then show ?case by simp
next
  case (Cons col cols)
  have len: "i \<le> length (insert_at i col names)"
    using Cons.prems by (simp add: insert_at_def)
  have "insert_all i (col # cols) names = insert_all i cols (insert_at i col names)"
    by simp
  also have "\<dots> = take i (insert_at i col names) @ rev cols @ drop i (insert_at i col names)"
    by (rule Cons.IH [OF len])
  also have "\<dots> = take i names @ rev (col # cols) @ drop i names"
    using Cons.prems by (simp add: insert_at_def)
  finally show ?case .
qed

lemma substitute_columns_table:
  assumes ix: "index names ''x'' = Inr ix"
    and iy: "index names ''y'' = Inr iy"
    and iz: "index names ''z'' = Inr iz"
    and len: "2 \<le> length (columns t)"
  shows "substitute_columns names (DataFrame t) =
           Inr (take iz (names[ix := columns t ! 0, iy := columns t ! 1])
                @ drop 2 (columns t)
                @ drop (Suc iz) (names[ix := columns t ! 0, iy := columns t ! 1]))"
proof -
  from index_Inr [OF iz] have "iz < length names" by simp
  moreover from len have "columns t \<noteq> []" "Suc 0 < length (columns t)" by auto
  ultimately show ?thesis
    using ix iy iz
    by (simp add: substitute_columns_def getitem_def pop_def insert_all_eq)
qed

section \<open>Properties of the call\<close>

lemma has_key_update_C: "k \<noteq> ''C'' \<Longrightarrow> has_key (AList.update ''C'' v kw) k = has_key kw k"
  by (auto simp: has_key_def AList.dom_update)

lemma resolved_flags_update_C: "resolved_flags (AList.update ''C'' v kw) = resolved_flags kw"
  by (simp add: resolved_flags_def AList.update_conv')

lemma set_list_of_str: "[ch] \<in> set (list_of_str s) \<longleftrightarrow> ch \<in> set s"
  by (auto simp: list_of_str_def)

lemma run_module_table:
  assumes "\<not> has_key kw ''G''"
  shows "run_module env (DataFrame t) (Some out) kw =
           ([str_join '' '' [virtualfile_from_matrix env (rows t), build_arg_string kw, ''->'' @ out]],
            lib_call_module env ''project''
              (str_join '' '' [virtualfile_from_matrix env (rows t), build_arg_string kw, ''->'' @ out]))"
  using assms by (simp add: run_module_def table_context_def redirect_def Let_def)

lemma run_module_file:
  assumes "\<not> has_key kw ''G''"
  shows "run_module env (FileName f) (Some out) kw =
           ([str_join '' '' [f, build_arg_string kw, ''->'' @ out]],
            lib_call_module env ''project'' (str_join '' '' [f, build_arg_string kw, ''->'' @ out]))"
  using assms by (simp add: run_module_def table_context_def redirect_def Let_def)

lemma run_module_other:
  assumes "\<not> has_key kw ''G''"
  shows "run_module env (OtherObject ty) outfile kw =
           ([], Inl (GMTInvalidInput (UnrecognizedDataType ty)))"
  using assms by (simp add: run_module_def table_context_def)

lemma run_module_generate:
  assumes "has_key kw ''G''"
  shows "run_module env pts (Some out) kw =
           ([str_join '' '' [build_arg_string kw, ''->'' @ out]],
            lib_call_module env ''project'' (str_join '' '' [build_arg_string kw, ''->'' @ out]))"
  using assms by (simp add: run_module_def redirect_def Let_def)

lemma lib_call_module_Inr: "call_module env m a = Inr w \<Longrightarrow> lib_call_module env m a = Inr w"
  by (simp add: lib_call_module_def)


lemmas example_defs = example_env_def lonlat_def quakes_def
lemmas project_defs = project_def resolve_outfile_def run_module_def has_key_def
  table_context_def redirect_def lib_call_module_def build_arg_string_def arg_tokens_def
  flag_token_def output_column_names_def substitute_columns_def resolved_flags_def
  list_of_str_def getitem_def pop_def insert_at_def read_csv_def center_arg_def

lemma project_run_Inl:
  assumes "run_module env pts (resolve_outfile env outfile0)
             (AList.update ''C'' (center_arg c) kw0) = (calls, Inl e)"
  shows "project env pts c outfile0 kw0 = (calls, Inl e)"
  using assms by (simp add: project_def Let_def)

lemma project_run_Inr:
  assumes "run_module env pts (resolve_outfile env outfile0)
             (AList.update ''C'' (center_arg c) kw0) = (calls, Inr written)"
  shows "project env pts c outfile0 kw0 =
           (if resolve_outfile env outfile0 = Some (tmpfile_name env) then
              (case output_column_names (AList.update ''C'' (center_arg c) kw0) pts of
                 Inl e \<Rightarrow> (calls, Inl e)
               | Inr column_names \<Rightarrow>
                   (case read_csv written column_names of
                      Inl e \<Rightarrow> (calls, Inl e)
                    | Inr result \<Rightarrow> (calls, Inr (Some result))))
            else (calls, Inr None))"
  using assms by (simp add: project_def Let_def)

lemma project_table_None:
  assumes noG: "\<not> has_key kw ''G''"
    and run: "call_module env ''project''
          (str_join '' '' [virtualfile_from_matrix env (rows t),
             build_arg_string (AList.update ''C'' (center_arg c) kw),
             ''->'' @ tmpfile_name env]) = Inr written"
  shows "snd (project env (DataFrame t) c None kw) =
           (case substitute_columns (list_of_str (resolved_flags kw)) (DataFrame t) of
              Inl e \<Rightarrow> Inl e
            | Inr names \<Rightarrow>
                (case read_csv written names of
                   Inl e \<Rightarrow> Inl e
                 | Inr result \<Rightarrow> Inr (Some result)))"
proof -
  let ?kw = "AList.update ''C'' (center_arg c) kw"
  have g: "\<not> has_key ?kw ''G''"
    using noG by (simp add: has_key_update_C)
  have out: "resolve_outfile env None = Some (tmpfile_name env)"
    by (simp add: resolve_outfile_def)
  have names: "output_column_names ?kw (DataFrame t) =
      substitute_columns (list_of_str (resolved_flags kw)) (DataFrame t)"
    using g by (simp add: output_column_names_def resolved_flags_update_C)
  have "run_module env (DataFrame t) (resolve_outfile env None) ?kw =
      ([str_join '' '' [virtualfile_from_matrix env (rows t), build_arg_string ?kw,
          ''->'' @ tmpfile_name env]], Inr written)"
    unfolding out run_module_table [OF g] lib_call_module_Inr [OF run] ..
  from project_run_Inr [OF this] show ?thesis
    by (simp add: out names split: sum.splits)
qed

lemma read_csv_distinct:
  "distinct names \<Longrightarrow> read_csv written names = Inr \<lparr>columns = names, rows = written\<rparr>"
  by (simp add: read_csv_def)

lemma read_csv_repeated: "\<not> distinct names \<Longrightarrow> read_csv written names = Inl ValueError"
  by (simp add: read_csv_def)

lemma flags_indices:
  assumes "CHR ''x'' \<in> set fl" "CHR ''y'' \<in> set fl" "CHR ''z'' \<in> set fl"
  shows "\<exists>ix iy iz. index (list_of_str fl) ''x'' = Inr ix
           \<and> index (list_of_str fl) ''y'' = Inr iy
           \<and> index (list_of_str fl) ''z'' = Inr iz"
proof -
  from assms have "''x'' \<in> set (list_of_str fl)" "''y'' \<in> set (list_of_str fl)"
    "''z'' \<in> set (list_of_str fl)"
    by (simp_all add: set_list_of_str)
  then show ?thesis
    by (meson index_present)
qed

lemma length_list_of_str: "length (list_of_str s) = length s"
  by (simp add: list_of_str_def)


section \<open>The claims\<close>

text \<open>
  C1 (as amended). For an in-memory table with \<open>N \<ge> 2\<close> columns, no generate option and no
  outfile, when the resolved flags contain x, y and z and the module call succeeds, the
  column substitution gives a list of names whose length is the length of the resolved
  flags minus one (the z placeholder) plus \<open>N - 2\<close> (the columns that take its place),
  written here as \<open>count + 3 = length flags + N\<close>, and whose first two names are the
  first two column names of the input when the resolved flags begin with \<open>xy\<close>, as the
  default does. When no name is repeated in that list, the call returns the table under
  exactly these names; when one is, \<^verbatim>\<open>read_csv\<close> raises \<^verbatim>\<open>ValueError\<close> at line 268.
\<close>

theorem project_column_names:
  assumes len: "2 \<le> length (columns t)"
    and noG: "\<not> has_key kw ''G''"
    and fx: "CHR ''x'' \<in> set (resolved_flags kw)"
    and fy: "CHR ''y'' \<in> set (resolved_flags kw)"
    and fz: "CHR ''z'' \<in> set (resolved_flags kw)"
    and run: "call_module env ''project''
          (str_join '' '' [virtualfile_from_matrix env (rows t),
             build_arg_string (AList.update ''C'' (center_arg c) kw),
             ''->'' @ tmpfile_name env]) = Inr written"
  shows "\<exists>names. substitute_columns (list_of_str (resolved_flags kw)) (DataFrame t) = Inr names
           \<and> length names + 3 = length (resolved_flags kw) + length (columns t)
           \<and> (take 2 (resolved_flags kw) = ''xy'' \<longrightarrow> take 2 names = take 2 (columns t))
           \<and> (distinct names \<longrightarrow>
                snd (project env (DataFrame t) c None kw)
                  = Inr (Some \<lparr>columns = names, rows = written\<rparr>))
           \<and> (\<not> distinct names \<longrightarrow>
                snd (project env (DataFrame t) c None kw) = Inl ValueError)"
proof -
  let ?flags = "list_of_str (resolved_flags kw)"
  from flags_indices [OF fx fy fz] obtain ix iy iz where
    ix: "index ?flags ''x'' = Inr ix" and iy: "index ?flags ''y'' = Inr iy"
    and iz: "index ?flags ''z'' = Inr iz"
    by blast
  let ?names' = "?flags[ix := columns t ! 0, iy := columns t ! 1]"
  let ?out = "take iz ?names' @ drop 2 (columns t) @ drop (Suc iz) ?names'"
  have sub: "substitute_columns ?flags (DataFrame t) = Inr ?out"
    by (rule substitute_columns_table [OF ix iy iz len])
  have res: "snd (project env (DataFrame t) c None kw) =
      (case read_csv written ?out of Inl e \<Rightarrow> Inl e | Inr result \<Rightarrow> Inr (Some result))"
    by (simp add: project_table_None [OF noG run] sub)
  from index_Inr [OF iz] have izlen: "iz < length (resolved_flags kw)"
    by (simp add: length_list_of_str)
  have count: "length ?out + 3 = length (resolved_flags kw) + length (columns t)"
    using izlen len by (simp add: length_list_of_str)
  have first: "take 2 ?out = take 2 (columns t)" if xy: "take 2 (resolved_flags kw) = ''xy''"
  proof -
    from xy obtain rest where fl: "resolved_flags kw = CHR ''x'' # CHR ''y'' # rest"
      by (cases "resolved_flags kw"; cases "tl (resolved_flags kw)") auto
    from ix fl have ix0: "ix = 0" by (simp add: list_of_str_def)
    from iy fl have iy1: "iy = 1" by (simp add: list_of_str_def)
    from iz fl obtain k where izk: "iz = Suc (Suc k)"
      by (auto simp: list_of_str_def split: sum.splits)
    from len obtain a b cs where cols: "columns t = a # b # cs"
      by (cases "columns t"; cases "tl (columns t)") auto
    show ?thesis
      by (simp add: fl ix0 iy1 izk cols list_of_str_def)
  qed
  have returned: "snd (project env (DataFrame t) c None kw)
      = Inr (Some \<lparr>columns = ?out, rows = written\<rparr>)" if "distinct ?out"
    by (simp only: res read_csv_distinct [OF that] sum.case)
  have refused: "snd (project env (DataFrame t) c None kw) = Inl ValueError"
    if "\<not> distinct ?out"
    by (simp only: res read_csv_repeated [OF that] sum.case)
  from sub count first returned refused show ?thesis
    by blast
qed

theorem project_column_names_witness:
  "\<exists>r. snd (project example_env (DataFrame quakes) (CenterSeq [PyInt 10, PyInt 20]) None []) = Inr (Some r)
       \<and> length (columns r) = 8 \<and> take 2 (columns r) = [''lon'', ''lat'']"
  using project_column_names [of quakes "[]" example_env "CenterSeq [PyInt 10, PyInt 20]" "[]"]
  by (auto simp: example_defs has_key_def resolved_flags_def substitute_columns_def
      list_of_str_def getitem_def pop_def insert_at_def)

theorem project_column_count_counterexample:
  "snd (project example_env (DataFrame lonlat) (CenterSeq [PyInt 10, PyInt 20]) None [])
     = Inr (Some \<lparr>columns = [''lon'', ''lat'', ''p'', ''q'', ''r'', ''s''], rows = []\<rparr>)
   \<and> length [''lon'', ''lat'', ''p'', ''q'', ''r'', ''s''] \<noteq> length (resolved_flags [])
   \<and> snd (project example_env (DataFrame quakes) (CenterSeq [PyInt 10, PyInt 20]) None [(''F'', ''pqxyz'')])
     = Inr (Some \<lparr>columns = [''p'', ''q'', ''lon'', ''lat'', ''depth'', ''mag''], rows = []\<rparr>)
   \<and> take 2 [''p'', ''q'', ''lon'', ''lat'', ''depth'', ''mag''] \<noteq> take 2 (columns quakes)
   \<and> snd (project example_env (DataFrame \<lparr>columns = [''lon'', ''lon'', ''depth''], rows = []\<rparr>)
          (CenterSeq [PyInt 10, PyInt 20]) None []) = Inl ValueError"
  by (simp add: project_defs example_defs str_nat.simps)

text \<open>
  C3 (as amended). For an in-memory table with \<open>N > 2\<close> columns, no generate option and
  no outfile, when the resolved flags contain x, y and z and the module call succeeds,
  the column substitution gives the flags with x and y overwritten, cut at the position
  of z, with the \<open>N - 2\<close> input columns beyond the first two put in between in their
  original order: the names before z keep their positions, the input columns stand at
  the positions from that of z on, and every name after z moves by \<open>N - 3\<close>. When no
  name is repeated in that list, the call returns the table under exactly these names;
  when one is, \<^verbatim>\<open>read_csv\<close> raises \<^verbatim>\<open>ValueError\<close> at line 268.
\<close>

theorem z_placeholder_expansion:
  assumes len: "2 < length (columns t)"
    and noG: "\<not> has_key kw ''G''"
    and fx: "CHR ''x'' \<in> set (resolved_flags kw)"
    and fy: "CHR ''y'' \<in> set (resolved_flags kw)"
    and fz: "CHR ''z'' \<in> set (resolved_flags kw)"
    and run: "call_module env ''project''
          (str_join '' '' [virtualfile_from_matrix env (rows t),
             build_arg_string (AList.update ''C'' (center_arg c) kw),
             ''->'' @ tmpfile_name env]) = Inr written"
  shows "\<exists>ix iy iz names out.
           index (list_of_str (resolved_flags kw)) ''x'' = Inr ix
         \<and> index (list_of_str (resolved_flags kw)) ''y'' = Inr iy
         \<and> index (list_of_str (resolved_flags kw)) ''z'' = Inr iz
         \<and> names = (list_of_str (resolved_flags kw))[ix := columns t ! 0, iy := columns t ! 1]
         \<and> substitute_columns (list_of_str (resolved_flags kw)) (DataFrame t) = Inr out
         \<and> out = take iz names @ drop 2 (columns t) @ drop (Suc iz) names
         \<and> length out = length names - 1 + (length (columns t) - 2)
         \<and> (\<forall>j < iz. out ! j = names ! j)
         \<and> (\<forall>k < length (columns t) - 2. out ! (iz + k) = columns t ! (2 + k))
         \<and> (\<forall>j. iz < j \<and> j < length names \<longrightarrow>
               out ! (j - 1 + (length (columns t) - 2)) = names ! j)
         \<and> (distinct out \<longrightarrow>
               snd (project env (DataFrame t) c None kw)
                 = Inr (Some \<lparr>columns = out, rows = written\<rparr>))
         \<and> (\<not> distinct out \<longrightarrow>
               snd (project env (DataFrame t) c None kw) = Inl ValueError)"
proof -
  let ?flags = "list_of_str (resolved_flags kw)"
  from flags_indices [OF fx fy fz] obtain ix iy iz where
    ix: "index ?flags ''x'' = Inr ix" and iy: "index ?flags ''y'' = Inr iy"
    and iz: "index ?flags ''z'' = Inr iz"
    by blast
  define names where "names = ?flags[ix := columns t ! 0, iy := columns t ! 1]"
  define out where "out = take iz names @ drop 2 (columns t) @ drop (Suc iz) names"
  from len have len2: "2 \<le> length (columns t)" by simp
  have sub: "substitute_columns ?flags (DataFrame t) = Inr out"
    by (simp add: substitute_columns_table [OF ix iy iz len2] out_def names_def)
  have res: "snd (project env (DataFrame t) c None kw) =
      (case read_csv written out of Inl e \<Rightarrow> Inl e | Inr result \<Rightarrow> Inr (Some result))"
    by (simp add: project_table_None [OF noG run] sub)
  from index_Inr [OF iz] have izlen: "iz < length names"
    by (simp add: names_def)
  have count: "length out = length names - 1 + (length (columns t) - 2)"
    using izlen by (simp add: out_def)
  have before: "out ! j = names ! j" if "j < iz" for j
    using that izlen by (simp add: out_def nth_append)
  have middle: "out ! (iz + k) = columns t ! (2 + k)" if "k < length (columns t) - 2" for k
    using that izlen by (simp add: out_def nth_append)
  have after: "out ! (j - 1 + (length (columns t) - 2)) = names ! j"
    if "iz < j" "j < length names" for j
  proof -
    from that obtain d where d: "j = Suc iz + d"
      using less_iff_Suc_add by auto
    have "j - 1 + (length (columns t) - 2) = iz + (length (columns t) - 2) + d"
      using d by simp
    then have "out ! (j - 1 + (length (columns t) - 2)) = drop (Suc iz) names ! d"
      using izlen by (simp add: out_def nth_append min_def)
    also have "\<dots> = names ! j"
      using that d by simp
    finally show ?thesis .
  qed
  have returned: "snd (project env (DataFrame t) c None kw)
      = Inr (Some \<lparr>columns = out, rows = written\<rparr>)" if "distinct out"
    by (simp only: res read_csv_distinct [OF that] sum.case)
  have refused: "snd (project env (DataFrame t) c None kw) = Inl ValueError"
    if "\<not> distinct out"
    by (simp only: res read_csv_repeated [OF that] sum.case)
  have "index ?flags ''x'' = Inr ix \<and> index ?flags ''y'' = Inr iy \<and> index ?flags ''z'' = Inr iz
      \<and> names = ?flags[ix := columns t ! 0, iy := columns t ! 1]
      \<and> substitute_columns ?flags (DataFrame t) = Inr out
      \<and> out = take iz names @ drop 2 (columns t) @ drop (Suc iz) names
      \<and> length out = length names - 1 + (length (columns t) - 2)
      \<and> (\<forall>j < iz. out ! j = names ! j)
      \<and> (\<forall>k < length (columns t) - 2. out ! (iz + k) = columns t ! (2 + k))
      \<and> (\<forall>j. iz < j \<and> j < length names \<longrightarrow>
            out ! (j - 1 + (length (columns t) - 2)) = names ! j)
      \<and> (distinct out \<longrightarrow>
            snd (project env (DataFrame t) c None kw)
              = Inr (Some \<lparr>columns = out, rows = written\<rparr>))
      \<and> (\<not> distinct out \<longrightarrow>
            snd (project env (DataFrame t) c None kw) = Inl ValueError)"
    using ix iy iz sub count before middle after returned refused
    by (simp add: names_def out_def)
  then show ?thesis by blast
qed

theorem z_placeholder_expansion_witness:
  "\<exists>r. snd (project example_env (DataFrame quakes) (CenterSeq [PyInt 10, PyInt 20]) None
             [(''F'', ''pzqxy'')]) = Inr (Some r)
       \<and> columns r = [''p'', ''depth'', ''mag'', ''q'', ''lon'', ''lat'']"
  using z_placeholder_expansion [of quakes "[(''F'', ''pzqxy'')]" example_env
      "CenterSeq [PyInt 10, PyInt 20]" "[]"]
  by (auto simp: example_defs has_key_def resolved_flags_def list_of_str_def)

theorem z_placeholder_expansion_counterexample:
  "snd (project example_env (DataFrame quakes) (CenterSeq [PyInt 10, PyInt 20]) None
          [(''F'', ''zpq'')]) = Inl ValueError
   \<and> snd (project example_env (DataFrame \<lparr>columns = [''lon'', ''lat'', ''p''], rows = []\<rparr>)
          (CenterSeq [PyInt 10, PyInt 20]) None []) = Inl ValueError"
  by (simp add: project_defs example_defs str_nat.simps)

lemma resolve_outfile_None: "resolve_outfile env None = Some (tmpfile_name env)"
  by (simp add: resolve_outfile_def)


lemma resolve_outfile_is_Some: "\<exists>out. resolve_outfile env outfile = Some out"
  by (cases outfile) (simp_all add: resolve_outfile_def)

lemma has_key_G_update: "has_key (AList.update ''C'' v kw) ''G'' = has_key kw ''G''"
  by (simp add: has_key_update_C)

text \<open>
  C4. With the generate option set and no outfile, the call does not depend on
  \<^verbatim>\<open>points\<close>: any two values give the same module call and the same result. When the
  module call succeeds, the result is a table with exactly the three columns r, s, p.
\<close>

theorem generate_ignores_points:
  assumes gen: "has_key kw ''G''"
  shows "project env pts c None kw = project env pts' c None kw
       \<and> (call_module env ''project''
            (str_join '' '' [build_arg_string (AList.update ''C'' (center_arg c) kw),
               ''->'' @ tmpfile_name env]) = Inr written
          \<longrightarrow> project env pts c None kw =
               ([str_join '' '' [build_arg_string (AList.update ''C'' (center_arg c) kw),
                   ''->'' @ tmpfile_name env]],
                Inr (Some \<lparr>columns = [''r'', ''s'', ''p''], rows = written\<rparr>)))"
proof -
  let ?kw = "AList.update ''C'' (center_arg c) kw"
  let ?a = "str_join '' '' [build_arg_string ?kw, ''->'' @ tmpfile_name env]"
  have g: "has_key ?kw ''G''"
    using gen by (simp add: has_key_G_update)
  have run: "run_module env p (resolve_outfile env None) ?kw =
      ([?a], lib_call_module env ''project'' ?a)" for p
    unfolding resolve_outfile_None by (rule run_module_generate [OF g])
  have names: "output_column_names ?kw p = Inr [''r'', ''s'', ''p'']" for p
    using g by (simp add: output_column_names_def list_of_str_def)
  have same: "project env p c None kw =
      (case lib_call_module env ''project'' ?a of
         Inl e \<Rightarrow> ([?a], Inl e)
       | Inr w \<Rightarrow> ([?a], Inr (Some \<lparr>columns = [''r'', ''s'', ''p''], rows = w\<rparr>)))" for p
  proof (cases "lib_call_module env ''project'' ?a")
    case (Inl e)
    with run [of p] have "run_module env p (resolve_outfile env None) ?kw = ([?a], Inl e)"
      by simp
    from project_run_Inl [OF this] Inl show ?thesis by simp
  next
    case (Inr w)
    with run [of p] have "run_module env p (resolve_outfile env None) ?kw = ([?a], Inr w)"
      by simp
    from project_run_Inr [OF this] Inr show ?thesis
      by (simp add: resolve_outfile_None names read_csv_def)
  qed
  have "project env pts c None kw = project env pts' c None kw"
    by (simp only: same)
  moreover have "project env pts c None kw =
      ([?a], Inr (Some \<lparr>columns = [''r'', ''s'', ''p''], rows = written\<rparr>))"
    if "call_module env ''project'' ?a = Inr written"
    using lib_call_module_Inr [OF that] by (simp only: same [of pts] sum.case)
  ultimately show ?thesis by blast
qed

theorem generate_ignores_points_witness:
  "project example_env (OtherObject ''NoneType'') (CenterSeq [PyInt 0, PyInt (-1)]) None
       [(''G'', ''1''), (''E'', ''0/1'')]
     = project example_env (DataFrame quakes) (CenterSeq [PyInt 0, PyInt (-1)]) None
       [(''G'', ''1''), (''E'', ''0/1'')]
   \<and> project example_env (OtherObject ''NoneType'') (CenterSeq [PyInt 0, PyInt (-1)]) None
       [(''G'', ''1''), (''E'', ''0/1'')]
     = ([''-G1 -E0/1 -C0/-1 ->pygmt-tmp.csv''],
        Inr (Some \<lparr>columns = [''r'', ''s'', ''p''], rows = []\<rparr>))"
  using generate_ignores_points [of "[(''G'', ''1''), (''E'', ''0/1'')]" example_env
      "OtherObject ''NoneType''" "CenterSeq [PyInt 0, PyInt (-1)]" "DataFrame quakes" "[]"]
  by (auto simp: example_defs has_key_def build_arg_string_def arg_tokens_def flag_token_def
      center_arg_def str_nat.simps)

text \<open>
  C8. Without the generate option, when \<^verbatim>\<open>points\<close> is neither of the matrix kind nor a
  file path, the call raises \<^verbatim>\<open>GMTInvalidInput\<close> (unrecognized data type), the module
  has not been called (the list of calls is empty), and nothing is returned.
\<close>

theorem unrecognized_points_rejected:
  assumes noG: "\<not> has_key kw ''G''"
    and nm: "data_kind pts \<noteq> Matrix"
    and nf: "data_kind pts \<noteq> File"
  shows "\<exists>ty. project env pts c outfile kw = ([], Inl (GMTInvalidInput (UnrecognizedDataType ty)))"
proof -
  from nm nf obtain ty where pts: "pts = OtherObject ty"
    by (cases pts) simp_all
  have g: "\<not> has_key (AList.update ''C'' (center_arg c) kw) ''G''"
    using noG by (simp add: has_key_G_update)
  have "project env pts c outfile kw = ([], Inl (GMTInvalidInput (UnrecognizedDataType ty)))"
    unfolding pts by (rule project_run_Inl) (rule run_module_other [OF g])
  then show ?thesis ..
qed

theorem unrecognized_points_rejected_witness:
  "\<exists>ty. project example_env (OtherObject ''int'') (CenterSeq [PyInt 0, PyInt 0]) None
           [(''A'', ''45'')] = ([], Inl (GMTInvalidInput (UnrecognizedDataType ty)))"
  using unrecognized_points_rejected [of "[(''A'', ''45'')]" "OtherObject ''int''" example_env]
  by (simp add: has_key_def)

lemma str_join3: "str_join sep [a, b, d] = a @ sep @ b @ sep @ d"
  by simp

lemma str_join2: "str_join sep [a, b] = a @ sep @ b"
  by simp

lemma fst_project:
  "fst (project env pts c outfile kw) =
     fst (run_module env pts (resolve_outfile env outfile) (AList.update ''C'' (center_arg c) kw))"
  by (simp add: project_def Let_def split: prod.splits sum.splits)

lemma run_module_trace:
  "run_module env pts outfile kw = (calls, res) \<Longrightarrow>
     (calls = [] \<and> (\<exists>e. res = Inl e)) \<or>
     (\<exists>a. calls = [a] \<and> res = lib_call_module env ''project'' a)"
  by (auto simp: run_module_def Let_def split: if_splits sum.splits)


lemma run_module_valid_input:
  assumes "has_key kw ''G'' \<or> data_kind pts \<noteq> OtherKind"
  shows "\<exists>a. run_module env pts (Some out) kw = ([a], lib_call_module env ''project'' a)"
proof (cases "has_key kw ''G''")
  case True
  from run_module_generate [OF this] show ?thesis by blast
next
  case False
  with assms have "data_kind pts \<noteq> OtherKind" by simp
  then show ?thesis
    using run_module_table [OF False] run_module_file [OF False]
    by (cases pts) auto
qed



lemma substitute_columns_missing:
  assumes "''x'' \<notin> set names \<or> ''y'' \<notin> set names \<or> ''z'' \<notin> set names"
  shows "substitute_columns names pts = Inl ValueError"
proof (cases "index names ''x''")
  case (Inl e)
  with index_Inl [OF Inl] show ?thesis by (simp add: substitute_columns_def)
next
  case ix: (Inr ix)
  show ?thesis
  proof (cases "index names ''y''")
    case (Inl e)
    with ix index_Inl [OF Inl] show ?thesis by (simp add: substitute_columns_def)
  next
    case iy: (Inr iy)
    show ?thesis
    proof (cases "index names ''z''")
      case (Inl e)
      with ix iy index_Inl [OF Inl] show ?thesis by (simp add: substitute_columns_def)
    next
      case iz: (Inr iz)
      from index_Inr [OF ix] index_Inr [OF iy] index_Inr [OF iz]
      have "''x'' \<in> set names" "''y'' \<in> set names" "''z'' \<in> set names"
        by (metis nth_mem)+
      with assms show ?thesis by simp
    qed
  qed
qed

text \<open>
  C6. Without the generate option and without outfile, when the flags given under
  \<^verbatim>\<open>"F"\<close> lack x, y or z, the column substitution raises \<^verbatim>\<open>ValueError\<close> (from
  \<^verbatim>\<open>list.index\<close>) whatever the input; the call always fails; it fails with that
  \<^verbatim>\<open>ValueError\<close> whenever the module was called and succeeded, and the module is called
  whenever the input is a table or a file path.
\<close>

theorem missing_placeholder_fails:
  assumes noG: "\<not> has_key kw ''G''"
    and flags: "map_of kw ''F'' = Some flags"
    and missing: "CHR ''x'' \<notin> set flags \<or> CHR ''y'' \<notin> set flags \<or> CHR ''z'' \<notin> set flags"
  shows "output_column_names (AList.update ''C'' (center_arg c) kw) pts = Inl ValueError
       \<and> (\<exists>e. snd (project env pts c None kw) = Inl e)
       \<and> (\<forall>a written. fst (project env pts c None kw) = [a]
              \<and> call_module env ''project'' a = Inr written
            \<longrightarrow> snd (project env pts c None kw) = Inl ValueError)
       \<and> (data_kind pts \<noteq> OtherKind \<longrightarrow> (\<exists>a. fst (project env pts c None kw) = [a]))"
proof -
  let ?kw = "AList.update ''C'' (center_arg c) kw"
  have g: "\<not> has_key ?kw ''G''"
    using noG by (simp add: has_key_G_update)
  have rf: "resolved_flags ?kw = flags"
    using flags by (simp add: resolved_flags_update_C) (simp add: resolved_flags_def)
  from missing have "''x'' \<notin> set (list_of_str flags) \<or> ''y'' \<notin> set (list_of_str flags)
      \<or> ''z'' \<notin> set (list_of_str flags)"
    by (simp add: set_list_of_str)
  from substitute_columns_missing [OF this]
  have names: "output_column_names ?kw pts = Inl ValueError"
    using g by (simp add: output_column_names_def rf)
  obtain calls res where run: "run_module env pts (resolve_outfile env None) ?kw = (calls, res)"
    by (cases "run_module env pts (resolve_outfile env None) ?kw") blast
  have proj: "project env pts c None kw =
      (calls, case res of Inl e \<Rightarrow> Inl e | Inr w \<Rightarrow> Inl ValueError)"
  proof (cases res)
    case (Inl e)
    with run project_run_Inl [of env pts None c kw calls e] show ?thesis by simp
  next
    case (Inr w)
    with run project_run_Inr [of env pts None c kw calls w] show ?thesis
      by (simp add: resolve_outfile_None names)
  qed
  have fails: "\<exists>e. snd (project env pts c None kw) = Inl e"
    by (cases res) (simp_all add: proj)
  have reached: "snd (project env pts c None kw) = Inl ValueError"
    if "fst (project env pts c None kw) = [a]" "call_module env ''project'' a = Inr written"
    for a written
  proof -
    from that(1) have "calls = [a]" by (simp add: proj)
    with run_module_trace [OF run] have "res = lib_call_module env ''project'' a" by simp
    with lib_call_module_Inr [OF that(2)] show ?thesis by (simp add: proj)
  qed
  have invoked: "\<exists>a. fst (project env pts c None kw) = [a]" if "data_kind pts \<noteq> OtherKind"
  proof -
    from that run_module_valid_input [of ?kw pts env "tmpfile_name env"] run
    show ?thesis by (auto simp: resolve_outfile_None proj)
  qed
  from names fails reached invoked show ?thesis by blast
qed

theorem missing_placeholder_fails_witness:
  "fst (project example_env (DataFrame quakes) (CenterSeq [PyInt 10, PyInt 20]) None
          [(''F'', ''pqxy'')]) = [''@GMTAPI@-000000 -Fpqxy -C10/20 ->pygmt-tmp.csv'']
   \<and> snd (project example_env (DataFrame quakes) (CenterSeq [PyInt 10, PyInt 20]) None
          [(''F'', ''pqxy'')]) = Inl ValueError"
proof -
  have called: "fst (project example_env (DataFrame quakes) (CenterSeq [PyInt 10, PyInt 20]) None
      [(''F'', ''pqxy'')]) = [''@GMTAPI@-000000 -Fpqxy -C10/20 ->pygmt-tmp.csv'']"
    by (simp add: fst_project resolve_outfile_None run_module_table has_key_def
        build_arg_string_def arg_tokens_def flag_token_def center_arg_def str_nat.simps
        example_defs)
  have ok: "call_module example_env ''project''
      ''@GMTAPI@-000000 -Fpqxy -C10/20 ->pygmt-tmp.csv'' = Inr []"
    by (simp add: example_env_def)
  from missing_placeholder_fails [of "[(''F'', ''pqxy'')]" "''pqxy''" "CenterSeq [PyInt 10, PyInt 20]"
      "DataFrame quakes" example_env] called ok
  show ?thesis by (simp add: has_key_def)
qed











lemma table_context_not_outfile_error:
  "table_context env pts (Some out) \<noteq> Inl (GMTInvalidInput PleasePassOutfile)"
  by (cases pts) (simp_all add: table_context_def)

lemma run_module_not_outfile_error:
  "run_module env pts (Some out) kw = (calls, Inl e) \<Longrightarrow> e \<noteq> GMTInvalidInput PleasePassOutfile"
  using table_context_not_outfile_error [of env pts out]
  by (auto simp: run_module_def redirect_def lib_call_module_def Let_def
      split: if_splits sum.splits)

lemma substitute_columns_errors:
  "substitute_columns names pts = Inl e \<Longrightarrow> e \<in> {ValueError, AttributeError, IndexError}"
  by (cases pts)
    (auto simp: substitute_columns_def getitem_def pop_def
      split: sum.splits if_splits dest: index_Inl)

lemma output_column_names_errors:
  "output_column_names kw pts = Inl e \<Longrightarrow> e \<in> {ValueError, AttributeError, IndexError}"
  by (auto simp: output_column_names_def split: if_splits dest: substitute_columns_errors)

text \<open>
  C9. After line 222 \<^verbatim>\<open>outfile\<close> is never \<^verbatim>\<open>None\<close>, so the check of line 229 never
  fires: for every input, neither the choice of the module's input nor the whole call
  raises the \<^verbatim>\<open>GMTInvalidInput\<close> of line 230.
\<close>

theorem outfile_check_unreachable:
  "resolve_outfile env outfile \<noteq> None
   \<and> table_context env pts (resolve_outfile env outfile) \<noteq> Inl (GMTInvalidInput PleasePassOutfile)
   \<and> snd (project env pts c outfile kw) \<noteq> Inl (GMTInvalidInput PleasePassOutfile)"
proof -
  let ?kw = "AList.update ''C'' (center_arg c) kw"
  obtain out where out: "resolve_outfile env outfile = Some out"
    using resolve_outfile_is_Some by blast
  obtain calls res where run: "run_module env pts (Some out) ?kw = (calls, res)"
    by (cases "run_module env pts (Some out) ?kw") blast
  have "snd (project env pts c outfile kw) \<noteq> Inl (GMTInvalidInput PleasePassOutfile)"
  proof (cases res)
    case (Inl e)
    with run have r: "run_module env pts (resolve_outfile env outfile) ?kw = (calls, Inl e)"
      by (simp add: out)
    from run Inl run_module_not_outfile_error [of env pts out ?kw calls e]
    have "e \<noteq> GMTInvalidInput PleasePassOutfile" by simp
    with project_run_Inl [OF r] show ?thesis by simp
  next
    case (Inr written)
    with run have r: "run_module env pts (resolve_outfile env outfile) ?kw = (calls, Inr written)"
      by (simp add: out)
    show ?thesis
    proof (cases "output_column_names ?kw pts")
      case (Inl e)
      from output_column_names_errors [OF this] have "e \<noteq> GMTInvalidInput PleasePassOutfile"
        by auto
      with Inl show ?thesis
        by (simp add: project_run_Inr [OF r])
    next
      case (Inr names)
      then show ?thesis
        by (simp add: project_run_Inr [OF r] read_csv_def)
    qed
  qed
  with out table_context_not_outfile_error [of env pts out] show ?thesis by simp
qed




text \<open>
  C2. The call with a file path, no outfile and no options: the module is called,
  with the temporary file as its output, and the call then fails with
  \<^verbatim>\<open>AttributeError\<close> at line 261, not with \<^verbatim>\<open>GMTInvalidInput\<close> before the module call.
\<close>

theorem file_without_outfile_calls_module:
  "project example_env (FileName ''data.txt'') (CenterSeq [PyInt 0, PyInt 0]) None []
     = ([''data.txt -C0/0 ->pygmt-tmp.csv''], Inl AttributeError)"
  by (simp add: project_defs example_defs str_nat.simps)

end
